theory Spec2Isabelle
  imports Complex_Main "HOL-Library.Multiset" "HOL-Library.Log_Nat"
begin

section \<open>Python values\<close>

text \<open>
  The values that \<^verbatim>\<open>json.load\<close> and \<^verbatim>\<open>resp.json()\<close> hand to the program.
  A Python \<^verbatim>\<open>dict\<close> keeps insertion order, so an object is an association list
  (its keys are distinct, as in every Python dict). \<open>JFloat q\<close> is the Python float
  nearest to the rational \<open>q\<close>; \<open>JInt n\<close> is a Python int. Non-finite floats
  (\<^verbatim>\<open>nan\<close>, \<^verbatim>\<open>inf\<close>) are not represented, and float arithmetic is taken without
  overflow and underflow: the model covers the documents whose floats and whose sums,
  products and quotients stay finite and normal.
\<close>

datatype json =
    JNull
  | JBool bool
  | JInt int
  | JFloat rat
  | JStr string
  | JArr "json list"
  | JObj "(string \<times> json) list"

type_synonym pydict = "(string \<times> json) list"

datatype py_error = AttributeError | TypeError | ValueError | OverflowError

text \<open>Truth value testing, as \<^verbatim>\<open>x or y\<close> and \<^verbatim>\<open>if not x\<close> use it.\<close>

fun truthy :: "json \<Rightarrow> bool" where
  "truthy JNull = False"
| "truthy (JBool b) = b"
| "truthy (JInt n) = (n \<noteq> 0)"
| "truthy (JFloat q) = (q \<noteq> 0)"
| "truthy (JStr s) = (s \<noteq> [])"
| "truthy (JArr xs) = (xs \<noteq> [])"
| "truthy (JObj kvs) = (kvs \<noteq> [])"

definition py_or :: "json \<Rightarrow> json \<Rightarrow> json" where
  "py_or a b = (if truthy a then a else b)"

text \<open>\<^verbatim>\<open>d.get(k, default)\<close>, and \<^verbatim>\<open>d[k] = v\<close>: an existing key keeps its
  place, a new key goes last.\<close>

definition dict_get :: "pydict \<Rightarrow> string \<Rightarrow> json \<Rightarrow> json" where
  "dict_get d k dflt = (case map_of d k of Some v \<Rightarrow> v | None \<Rightarrow> dflt)"

fun dict_set :: "pydict \<Rightarrow> string \<Rightarrow> json \<Rightarrow> pydict" where
  "dict_set [] k v = [(k, v)]"
| "dict_set ((k', v') # d) k v = (if k' = k then (k, v) # d else (k', v') # dict_set d k v)"

section \<open>Floating-point arithmetic\<close>

text \<open>
  Python floats are IEEE 754 doubles: every operation returns the exact result rounded to
  the nearest number with a 53-bit significand, ties to even. \<open>fl\<close> is that rounding on
  the rationals (exponent range unbounded, so overflow and subnormals are left out).
\<close>

definition pow2 :: "int \<Rightarrow> rat" where
  "pow2 e = (if 0 \<le> e then 2 ^ nat e else 1 / 2 ^ nat (- e))"

definition round_half_even :: "rat \<Rightarrow> int" where
  "round_half_even x =
     (let f = \<lfloor>x\<rfloor>; r = x - of_int f
      in if r < 1 / 2 then f else if 1 / 2 < r then f + 1 else if even f then f else f + 1)"

text \<open>\<open>ilog2 x\<close> is \<open>\<lfloor>log\<^sub>2 x\<rfloor>\<close> for \<open>x > 0\<close>, computed from the bit lengths of numerator
  and denominator.\<close>

definition ilog2 :: "rat \<Rightarrow> int" where
  "ilog2 x =
     (let e = bitlen (fst (quotient_of x)) - bitlen (snd (quotient_of x))
      in if pow2 e \<le> x then e else e - 1)"

definition fl :: "rat \<Rightarrow> rat" where
  "fl x = (if x = 0 then 0
           else let s = pow2 (ilog2 \<bar>x\<bar> - 52) in of_int (round_half_even (x / s)) * s)"

definition fadd :: "rat \<Rightarrow> rat \<Rightarrow> rat" where
  "fadd a b = fl (a + b)"

definition fmul :: "rat \<Rightarrow> rat \<Rightarrow> rat" where
  "fmul a b = fl (a * b)"

definition fdiv :: "rat \<Rightarrow> rat \<Rightarrow> rat" where
  "fdiv a b = fl (a / b)"

text \<open>\<^verbatim>\<open>round(x, 2)\<close>: the exact value of \<open>x\<close> rounded to two decimals, ties to even,
  and the double nearest to that decimal.\<close>

definition round2 :: "rat \<Rightarrow> rat" where
  "round2 x = fl (of_int (round_half_even (x * 100)) / 100)"

text \<open>
  \<^verbatim>\<open>float(v)\<close>. A bool is an int; \<^verbatim>\<open>None\<close>, a list and a dict raise
  \<^verbatim>\<open>TypeError\<close>; a string that is no number raises \<^verbatim>\<open>ValueError\<close>. How Python
  reads a string as a number is the parameter \<open>sf\<close> (\<open>None\<close> where it raises). An int is
  rounded to the nearest double, and \<^verbatim>\<open>OverflowError\<close> is raised when that rounding
  leaves the range of the doubles, that is from \<open>2\<^sup>1\<^sup>0\<^sup>2\<^sup>4 - 2\<^sup>9\<^sup>7\<^sup>0\<close> on in absolute value.
\<close>

definition in_double_range :: "rat \<Rightarrow> bool" where
  "in_double_range x = (\<bar>x\<bar> < 2 ^ 1024)"

fun py_float :: "(string \<Rightarrow> rat option) \<Rightarrow> json \<Rightarrow> py_error + rat" where
  "py_float sf JNull = Inl TypeError"
| "py_float sf (JBool b) = Inr (if b then 1 else 0)"
| "py_float sf (JInt n) =
     (if in_double_range (fl (of_int n)) then Inr (fl (of_int n)) else Inl OverflowError)"
| "py_float sf (JFloat q) = Inr (fl q)"
| "py_float sf (JStr s) = (case sf s of None \<Rightarrow> Inl ValueError | Some q \<Rightarrow> Inr (fl q))"
| "py_float sf (JArr xs) = Inl TypeError"
| "py_float sf (JObj kvs) = Inl TypeError"

section \<open>compute_scores\<close>

definition colour_for :: "rat \<Rightarrow> string" where
  "colour_for v =
     (if v \<ge> 75 then ''#2ECC71''
      else if v \<ge> 50 then ''#F4D03F''
      else ''#E74C3C'')"

text \<open>Lines 119--125: the list comprehension raises \<^verbatim>\<open>AttributeError\<close> at the first
  element that has no \<^verbatim>\<open>get\<close>; a value that is not a list is kept as it is when
  truthy.\<close>

fun msg_item :: "json \<Rightarrow> py_error + json" where
  "msg_item (JObj m) = Inr (dict_get m ''message'' (JStr ''''))"
| "msg_item _ = Inl AttributeError"

fun comprehension :: "('a \<Rightarrow> py_error + 'b) \<Rightarrow> 'a list \<Rightarrow> py_error + 'b list" where
  "comprehension f [] = Inr []"
| "comprehension f (x # xs) =
     (case f x of
        Inl e \<Rightarrow> Inl e
      | Inr y \<Rightarrow> (case comprehension f xs of Inl e \<Rightarrow> Inl e | Inr ys \<Rightarrow> Inr (y # ys)))"

definition format_msg :: "json \<Rightarrow> py_error + json" where
  "format_msg messages =
     (case messages of
        JArr ms \<Rightarrow> (case comprehension msg_item ms of Inl e \<Rightarrow> Inl e | Inr xs \<Rightarrow> Inr (JArr xs))
      | _ \<Rightarrow> Inr (py_or messages (JArr [])))"

text \<open>Lines 115 and 116: the \<^verbatim>\<open>points\<close> and the \<^verbatim>\<open>weight\<close> of one indicator.\<close>

definition test_points :: "(string \<Rightarrow> rat option) \<Rightarrow> pydict \<Rightarrow> py_error + rat" where
  "test_points sf test = py_float sf (py_or (dict_get test ''points'' (JFloat 0)) (JFloat 0))"

definition test_weight :: "(string \<Rightarrow> rat option) \<Rightarrow> pydict \<Rightarrow> py_error + rat" where
  "test_weight sf test =
     (case dict_get test ''score'' (JObj []) of
        JObj score \<Rightarrow> py_float sf (py_or (dict_get score ''weight'' (JFloat 0)) (JFloat 0))
      | _ \<Rightarrow> Inl AttributeError)"

text \<open>Lines 115--136, the loop body for an indicator that is a dict: the processed entry,
  its points and its weight.\<close>

definition process_test ::
  "(string \<Rightarrow> rat option) \<Rightarrow> string \<Rightarrow> pydict \<Rightarrow> py_error + (json \<times> rat \<times> rat)" where
  "process_test sf key test =
     (case test_points sf test of
        Inl e \<Rightarrow> Inl e
      | Inr points \<Rightarrow>
     (case test_weight sf test of
        Inl e \<Rightarrow> Inl e
      | Inr weight \<Rightarrow>
     (let colour = py_or (dict_get test ''color'' JNull) (JStr (colour_for points));
          messages = dict_get test ''msg'' JNull
      in case format_msg messages of
        Inl e \<Rightarrow> Inl e
      | Inr formatted_msg \<Rightarrow>
          Inr (JObj
            [(''name'', py_or (dict_get test ''name'' JNull) (JStr key)),
             (''name_smart'',
                py_or (dict_get test ''name_smart'' JNull)
                  (py_or (dict_get test ''name'' JNull) (JStr key))),
             (''points'', JFloat points),
             (''score'', JObj [(''weight'', JFloat weight)]),
             (''color'', colour),
             (''test_status'', dict_get test ''test_status'' (JStr '''')),
             (''msg'', formatted_msg)],
            points, weight))))"

text \<open>Lines 112--138, the loop over \<^verbatim>\<open>items.items()\<close> with its three variables
  \<^verbatim>\<open>processed\<close>, \<^verbatim>\<open>points_sum\<close> and \<^verbatim>\<open>weight_sum\<close>.\<close>

fun items_loop ::
  "(string \<Rightarrow> rat option) \<Rightarrow> pydict \<Rightarrow> pydict \<times> rat \<times> rat \<Rightarrow> py_error + (pydict \<times> rat \<times> rat)" where
  "items_loop sf [] st = Inr st"
| "items_loop sf ((key, test) # rest) (processed, points_sum, weight_sum) =
     (case test of
        JObj t \<Rightarrow>
          (case process_test sf key t of
             Inl e \<Rightarrow> Inl e
           | Inr (entry, points, weight) \<Rightarrow>
               items_loop sf rest
                 (dict_set processed key entry,
                  fadd points_sum (fmul points weight),
                  fadd weight_sum weight))
      | _ \<Rightarrow> items_loop sf rest (processed, points_sum, weight_sum))"

text \<open>Lines 140--141: the aggregate of a principle, and of the whole document.\<close>

definition aggregate :: "rat \<Rightarrow> rat \<Rightarrow> rat" where
  "aggregate points_sum weight_sum =
     (if weight_sum > 0 then round2 (fdiv points_sum weight_sum) else 0)"

definition result_entry :: "rat \<Rightarrow> json" where
  "result_entry result_points =
     JObj [(''points'', JFloat result_points), (''color'', JStr (colour_for result_points))]"

text \<open>Lines 107--142, the body of the loop over the principles: \<^verbatim>\<open>processed\<close> with its
  \<^verbatim>\<open>result\<close> entry, and the two sums. \<^verbatim>\<open>items.items()\<close> raises when
  \<^verbatim>\<open>items\<close> is truthy and not a dict.\<close>

definition principle_items :: "pydict \<Rightarrow> string \<Rightarrow> json" where
  "principle_items data pdim = py_or (dict_get data pdim (JObj [])) (JObj [])"

definition process_dim ::
  "(string \<Rightarrow> rat option) \<Rightarrow> pydict \<Rightarrow> string \<Rightarrow> py_error + (pydict \<times> rat \<times> rat)" where
  "process_dim sf data pdim =
     (case principle_items data pdim of
        JObj items \<Rightarrow>
          (case items_loop sf items ([], 0, 0) of
             Inl e \<Rightarrow> Inl e
           | Inr (processed, points_sum, weight_sum) \<Rightarrow>
               Inr (dict_set processed ''result'' (result_entry (aggregate points_sum weight_sum)),
                    points_sum, weight_sum))
      | _ \<Rightarrow> Inl AttributeError)"

definition dims :: "string list" where
  "dims = [''findable'', ''accessible'', ''interoperable'', ''reusable'']"

fun dims_loop ::
  "(string \<Rightarrow> rat option) \<Rightarrow> pydict \<Rightarrow> string list \<Rightarrow> pydict \<times> rat \<times> rat \<Rightarrow>
     py_error + (pydict \<times> rat \<times> rat)" where
  "dims_loop sf data [] st = Inr st"
| "dims_loop sf data (pdim # rest) (principles, total_points, total_weight) =
     (case process_dim sf data pdim of
        Inl e \<Rightarrow> Inl e
      | Inr (processed, points_sum, weight_sum) \<Rightarrow>
          dims_loop sf data rest
            (dict_set principles pdim (JObj processed),
             fadd total_points points_sum,
             fadd total_weight weight_sum))"

text \<open>The function: \<^verbatim>\<open>(principles, fair_points, fair_color)\<close>, or the exception it
  raises. \<^verbatim>\<open>data.get\<close> needs a dict.\<close>

definition compute_scores ::
  "(string \<Rightarrow> rat option) \<Rightarrow> json \<Rightarrow> py_error + (json \<times> rat \<times> string)" where
  "compute_scores sf data =
     (case data of
        JObj d \<Rightarrow>
          (case dims_loop sf d dims ([], 0, 0) of
             Inl e \<Rightarrow> Inl e
           | Inr (principles, total_points, total_weight) \<Rightarrow>
               (let fair_points = aggregate total_points total_weight
                in Inr (JObj principles, fair_points, colour_for fair_points)))
      | _ \<Rightarrow> Inl AttributeError)"

section \<open>The evaluation handler\<close>

record settings =
  api_url :: string
  api_port :: int
  title :: string
  logo_url :: string
  logo_image :: string
  dev_mode :: bool
  sample_file :: string

text \<open>
  What the handler reaches outside the program, as parameters: \<open>read_json path\<close> is
  \<^verbatim>\<open>open(path)\<close> followed by \<^verbatim>\<open>json.load\<close> (\<open>None\<close> when either raises), and
  \<open>http_post endpoint payload\<close> is \<^verbatim>\<open>requests.post(endpoint, json=payload, timeout=30)\<close>:
  no reply when it raises (connection failure, timeout), else the status code and the
  body read as JSON (\<open>None\<close> when \<^verbatim>\<open>resp.json()\<close> raises). The handler's input and
  output actions are recorded in order.
\<close>

datatype http_reply = NoReply | Reply nat "json option"

record world =
  read_json :: "string \<Rightarrow> json option"
  http_post :: "string \<Rightarrow> json \<Rightarrow> http_reply"

datatype effect = FileRead string | HttpPost string json

text \<open>Lines 263--266 and 275--278: \<^verbatim>\<open>result_data\<close> after the loop with its
  \<^verbatim>\<open>break\<close>; it starts as \<^verbatim>\<open>None\<close>.\<close>

fun first_data :: "pydict \<Rightarrow> json option" where
  "first_data [] = None"
| "first_data ((k, v) # rest) = (if k \<noteq> ''evaluator_logs'' then Some v else first_data rest)"

text \<open>\<^verbatim>\<open>s.rstrip("/")\<close>, and \<^verbatim>\<open>f"{n}"\<close> for an int.\<close>

definition rstrip_slash :: "string \<Rightarrow> string" where
  "rstrip_slash s = rev (dropWhile (\<lambda>c. c = CHR ''/'') (rev s))"

fun str_nat :: "nat \<Rightarrow> string" where
  "str_nat n = (if n < 10 then [''0123456789'' ! n] else str_nat (n div 10) @ [''0123456789'' ! (n mod 10)])"

definition str_int :: "int \<Rightarrow> string" where
  "str_int i = (if i < 0 then CHR ''-'' # str_nat (nat (- i)) else str_nat (nat i))"

text \<open>Lines 258--280, the \<^verbatim>\<open>try\<close> block: every exception in it ends in the error
  page. \<^verbatim>\<open>.items()\<close> raises on a document that is not an object, and
  \<^verbatim>\<open>raise_for_status\<close> raises on a status from 400 to 599.\<close>

datatype loaded = LoadFailed | ResultData "json option"

definition document_data :: "json option \<Rightarrow> loaded" where
  "document_data doc =
     (case doc of
        Some (JObj json_data) \<Rightarrow> ResultData (first_data json_data)
      | _ \<Rightarrow> LoadFailed)"

definition load_document :: "world \<Rightarrow> settings \<Rightarrow> string \<Rightarrow> effect list \<times> loaded" where
  "load_document w cfg item_id =
     (if dev_mode cfg then
        ([FileRead (sample_file cfg)], document_data (read_json w (sample_file cfg)))
      else
        (let base = rstrip_slash (api_url cfg) @ '':'' @ str_int (api_port cfg);
             endpoint = base @ ''/v1.0/rda/rda_all'';
             payload = JObj [(''id'', JStr item_id), (''lang'', JStr ''en'')]
         in ([HttpPost endpoint payload],
             (case http_post w endpoint payload of
                NoReply \<Rightarrow> LoadFailed
              | Reply status body \<Rightarrow>
                  if 400 \<le> status \<and> status < 600 then LoadFailed else document_data body))))"

text \<open>
  Lines 240--292 of \<^verbatim>\<open>evaluator\<close>, up to the call of \<^verbatim>\<open>compute_scores\<close>.
  \<open>item_id\<close> is the request's identifier after \<^verbatim>\<open>strip()\<close>. Line 257 sets
  \<^verbatim>\<open>cfg.dev_mode = True\<close> before the \<^verbatim>\<open>try\<close> block. An exception of
  \<^verbatim>\<open>compute_scores\<close> is not caught by the handler. \<open>Scored\<close> stands for the handler
  going on, with the three values that \<^verbatim>\<open>compute_scores\<close> returned, to the assembly
  of the view model and the rendering of the results page (lines 297--440). Those lines
  are not embedded: they call neither \<^verbatim>\<open>open\<close> nor \<^verbatim>\<open>requests.post\<close>, and they can
  still raise
  (\<^verbatim>\<open>_max_for_group\<close> does on an indicator stored under the key \<^verbatim>\<open>tests\<close> or
  \<^verbatim>\<open>indicators\<close>).
\<close>

datatype response =
    RedirectIndex
  | ErrorLoading
  | ErrorNoData
  | Scored json rat string
  | Uncaught py_error

definition evaluator ::
  "(string \<Rightarrow> rat option) \<Rightarrow> world \<Rightarrow> settings \<Rightarrow> string \<Rightarrow> effect list \<times> response" where
  "evaluator sf w cfg0 item_id =
     (if item_id = [] then ([], RedirectIndex)
      else
        (let cfg = cfg0\<lparr>dev_mode := True\<rparr>;
             (effects, l) = load_document w cfg item_id
         in (effects,
             (case l of
                LoadFailed \<Rightarrow> ErrorLoading
              | ResultData None \<Rightarrow> ErrorNoData
              | ResultData (Some result_data) \<Rightarrow>
                  if \<not> truthy result_data then ErrorNoData
                  else (case compute_scores sf result_data of
                          Inl e \<Rightarrow> Uncaught e
                        | Inr (principles, fair_points, fair_color) \<Rightarrow>
                            Scored principles fair_points fair_color)))))"

section \<open>What the aggregation computes\<close>

text \<open>
  The indicators that count are the entries that are dicts. Their products
  \<^verbatim>\<open>points * weight\<close> and their weights are added up from \<^verbatim>\<open>0.0\<close> in the order
  of the document, each addition rounded as a float addition is. \<open>points_of\<close> and
  \<open>weight_of\<close> are only looked at where the conversion did not raise.
\<close>

fun as_object :: "json \<Rightarrow> pydict option" where
  "as_object (JObj t) = Some t"
| "as_object _ = None"

definition indicator_objects :: "pydict \<Rightarrow> pydict list" where
  "indicator_objects items = List.map_filter (\<lambda>kv. as_object (snd kv)) items"

definition points_of :: "(string \<Rightarrow> rat option) \<Rightarrow> pydict \<Rightarrow> rat" where
  "points_of sf t = (case test_points sf t of Inr p \<Rightarrow> p | Inl e \<Rightarrow> 0)"

definition weight_of :: "(string \<Rightarrow> rat option) \<Rightarrow> pydict \<Rightarrow> rat" where
  "weight_of sf t = (case test_weight sf t of Inr w \<Rightarrow> w | Inl e \<Rightarrow> 0)"

definition products :: "(string \<Rightarrow> rat option) \<Rightarrow> pydict \<Rightarrow> rat list" where
  "products sf items = map (\<lambda>t. fmul (points_of sf t) (weight_of sf t)) (indicator_objects items)"

definition weights :: "(string \<Rightarrow> rat option) \<Rightarrow> pydict \<Rightarrow> rat list" where
  "weights sf items = map (weight_of sf) (indicator_objects items)"

definition float_sum :: "rat list \<Rightarrow> rat" where
  "float_sum xs = foldl fadd 0 xs"

definition items_of :: "pydict \<Rightarrow> string \<Rightarrow> pydict" where
  "items_of data pdim = (case principle_items data pdim of JObj items \<Rightarrow> items | _ \<Rightarrow> [])"

definition weighted_sum :: "(string \<Rightarrow> rat option) \<Rightarrow> pydict \<Rightarrow> string \<Rightarrow> rat" where
  "weighted_sum sf data pdim = float_sum (products sf (items_of data pdim))"

definition weight_total :: "(string \<Rightarrow> rat option) \<Rightarrow> pydict \<Rightarrow> string \<Rightarrow> rat" where
  "weight_total sf data pdim = float_sum (weights sf (items_of data pdim))"

definition global_points :: "(string \<Rightarrow> rat option) \<Rightarrow> pydict \<Rightarrow> rat" where
  "global_points sf data = float_sum (map (weighted_sum sf data) dims)"

definition global_weight :: "(string \<Rightarrow> rat option) \<Rightarrow> pydict \<Rightarrow> rat" where
  "global_weight sf data = float_sum (map (weight_total sf data) dims)"

text \<open>The global weighted average in the specification's words: the sum of all
  principles' weighted sums, divided by the sum of all principles' weights, rounded to two
  decimals. (A quotient by zero is \<open>0\<close> in HOL; in Python it would raise.)\<close>

definition global_weighted_average :: "(string \<Rightarrow> rat option) \<Rightarrow> pydict \<Rightarrow> rat" where
  "global_weighted_average sf data = round2 (fdiv (global_points sf data) (global_weight sf data))"

text \<open>The mean of the four principle aggregates, which the overall score is not.\<close>

definition mean_of_aggregates :: "(string \<Rightarrow> rat option) \<Rightarrow> pydict \<Rightarrow> rat" where
  "mean_of_aggregates sf data =
     fdiv (float_sum (map (\<lambda>pdim. aggregate (weighted_sum sf data pdim) (weight_total sf data pdim)) dims)) 4"

text \<open>\<^verbatim>\<open>principles[pdim]["result"]\<close> of the returned mapping.\<close>

definition principle_result :: "json \<Rightarrow> string \<Rightarrow> json" where
  "principle_result principles pdim =
     (case principles of
        JObj ps \<Rightarrow>
          (case dict_get ps pdim JNull of
             JObj processed \<Rightarrow> dict_get processed ''result'' JNull
           | _ \<Rightarrow> JNull)
      | _ \<Rightarrow> JNull)"




text \<open>An indicator with integer points and weight:
  \<^verbatim>\<open>{"points": p, "score": {"weight": w}}\<close>.\<close>

definition indicator :: "int \<Rightarrow> int \<Rightarrow> json" where
  "indicator p w = JObj [(''points'', JInt p), (''score'', JObj [(''weight'', JInt w)])]"

text \<open>An indicator that the loop body processes without an exception.\<close>

definition indicator_ok :: "(string \<Rightarrow> rat option) \<Rightarrow> pydict \<Rightarrow> bool" where
  "indicator_ok sf t =
     (\<not> isl (test_points sf t) \<and> \<not> isl (test_weight sf t) \<and>
      \<not> isl (format_msg (dict_get t ''msg'' JNull)))"

section \<open>Example documents\<close>

text \<open>The examples hold no string where a number is expected, so they are evaluated
  under a reading of strings in which \<^verbatim>\<open>float(s)\<close> accepts none.\<close>

definition no_numeric_strings :: "string \<Rightarrow> rat option" where
  "no_numeric_strings s = None"

text \<open>\<^verbatim>\<open>(fair_points, fair_color)\<close> of a result, or the exception.\<close>

definition scores_of :: "py_error + (json \<times> rat \<times> string) \<Rightarrow> py_error + (rat \<times> string)" where
  "scores_of r = map_sum id snd r"



text \<open>\<^verbatim>\<open>findable\<close> is empty, \<^verbatim>\<open>accessible\<close> is absent, \<^verbatim>\<open>interoperable\<close> is
  \<^verbatim>\<open>null\<close>, and both indicators of \<^verbatim>\<open>reusable\<close> have weight 0.\<close>

definition zero_weight_doc :: pydict where
  "zero_weight_doc =
     [(''findable'', JObj []),
      (''interoperable'', JNull),
      (''reusable'', JObj [(''r1'', indicator 80 0), (''r2'', indicator 50 0)])]"

text \<open>An indicator under the key \<^verbatim>\<open>result\<close>, an entry that is no dict, a principle
  that is \<^verbatim>\<open>null\<close> and two that are absent.\<close>

definition result_key_doc :: pydict where
  "result_key_doc =
     [(''findable'', JObj [(''result'', indicator 100 1), (''f2'', JStr ''n/a'')]),
      (''accessible'', JNull)]"





text \<open>The default settings of \<^verbatim>\<open>Settings\<close> (development mode off), a fixture file with
  the keys \<^verbatim>\<open>evaluator_logs\<close> and \<^verbatim>\<open>group1\<close>, and a world in which the sample
  file holds that fixture and the API answers every request with status 500.\<close>

definition production_cfg :: settings where
  "production_cfg =
     \<lparr>api_url = ''http://localhost'', api_port = 9090, title = ''FAIR EVA'',
      logo_url = ''https://digital.csic.es'', logo_image = ''logo_fair_eosc.png'',
      dev_mode = False, sample_file = ''data/salida_new.json''\<rparr>"

definition fixture :: json where
  "fixture =
     JObj [(''evaluator_logs'', JStr ''log''),
           (''group1'', JObj [(''findable'', JObj [(''f1'', indicator 80 1)])])]"

definition failing_api_world :: world where
  "failing_api_world =
     \<lparr>read_json = (\<lambda>path. if path = ''data/salida_new.json'' then Some fixture else None),
      http_post = (\<lambda>endpoint payload. Reply 500 None)\<rparr>"

text \<open>
  \<^verbatim>\<open>{"findable": {"i1": {"points": 80, "score": {"weight": 0}, "msg": ["not evaluated"]}}}\<close>
\<close>

definition zero_weight_msg_doc :: pydict where
  "zero_weight_msg_doc =
     [(''findable'', JObj
        [(''i1'', JObj [(''points'', JInt 80), (''score'', JObj [(''weight'', JInt 0)]),
                       (''msg'', JArr [JStr ''not evaluated''])])])]"

section \<open>Colour banding\<close>

text \<open>
  C7. The colour banding is closed at its thresholds: a score of at least 75 is green
  (\<^verbatim>\<open>#2ECC71\<close>), a score of at least 50 and below 75 is yellow (\<^verbatim>\<open>#F4D03F\<close>), a score
  below 50 is red (\<^verbatim>\<open>#E74C3C\<close>).
\<close>

theorem colour_for_banding:
  "(v \<ge> 75 \<longrightarrow> colour_for v = ''#2ECC71'') \<and>
   (50 \<le> v \<and> v < 75 \<longrightarrow> colour_for v = ''#F4D03F'') \<and>
   (v < 50 \<longrightarrow> colour_for v = ''#E74C3C'')"
  by (simp add: colour_for_def)

theorem colour_for_banding_witness:
  "colour_for 75 = ''#2ECC71'' \<and> colour_for (7499 / 100) = ''#F4D03F'' \<and>
   colour_for 50 = ''#F4D03F'' \<and> colour_for (4999 / 100) = ''#E74C3C''"
  using colour_for_banding [of 75] colour_for_banding [of "7499 / 100"]
    colour_for_banding [of 50] colour_for_banding [of "4999 / 100"]
  by simp

section \<open>The loops of compute_scores\<close>

lemma dict_get_dict_set: "dict_get (dict_set d k v) k x = v"
  by (induction d) (auto simp: dict_get_def)

lemma dict_get_dict_set_other: "k' \<noteq> k \<Longrightarrow> dict_get (dict_set d k v) k' x = dict_get d k' x"
  by (induction d) (auto simp: dict_get_def)

lemma process_test_Inr:
  "process_test sf key t = Inr (e, p, w) \<Longrightarrow> test_points sf t = Inr p \<and> test_weight sf t = Inr w"
  by (auto simp: process_test_def Let_def split: sum.splits)

lemma process_test_ok: "\<not> isl (process_test sf key t) \<longleftrightarrow> indicator_ok sf t"
  by (auto simp: process_test_def indicator_ok_def Let_def split: sum.splits)

lemma indicator_objects_Cons:
  "indicator_objects ((k, v) # rest) = (case v of JObj t \<Rightarrow> t # indicator_objects rest | _ \<Rightarrow> indicator_objects rest)"
  by (cases v) (simp_all add: indicator_objects_def)

lemma items_loop_sums:
  "items_loop sf items (pr, ps, ws) = Inr (pr', ps', ws') \<Longrightarrow>
   ps' = foldl fadd ps (products sf items) \<and> ws' = foldl fadd ws (weights sf items)"
proof (induction items arbitrary: pr ps ws)
  case Nil
  then show ?case by (simp add: products_def weights_def indicator_objects_def)
next
  case (Cons kv rest)
  obtain key test where kv: "kv = (key, test)" by (cases kv)
  show ?case
  proof (cases "as_object test")
    case None
    then have "items_loop sf (kv # rest) (pr, ps, ws) = items_loop sf rest (pr, ps, ws)"
      and "indicator_objects (kv # rest) = indicator_objects rest"
      by (cases test; simp add: kv indicator_objects_Cons)+
    with Cons show ?thesis by (simp add: products_def weights_def)
  next
    case (Some t)
    then have test: "test = JObj t" by (cases test) simp_all
    from Cons.prems obtain entry p w where pt: "process_test sf key t = Inr (entry, p, w)"
      and rest: "items_loop sf rest (dict_set pr key entry, fadd ps (fmul p w), fadd ws w) = Inr (pr', ps', ws')"
      by (auto simp: kv test split: sum.splits)
    from process_test_Inr [OF pt] have "points_of sf t = p" "weight_of sf t = w"
      by (simp_all add: points_of_def weight_of_def)
    with Cons.IH [OF rest] show ?thesis
      by (simp add: kv test products_def weights_def indicator_objects_Cons)
  qed
qed

lemma items_loop_ok:
  "\<not> isl (items_loop sf items st) \<longleftrightarrow> (\<forall>t \<in> set (indicator_objects items). indicator_ok sf t)"
proof (induction items arbitrary: st)
  case Nil
  then show ?case by (simp add: indicator_objects_def)
next
  case (Cons kv rest)
  obtain key test where kv: "kv = (key, test)" by (cases kv)
  obtain pr ps ws where st: "st = (pr, ps, ws)" by (cases st)
  show ?case
  proof (cases "as_object test")
    case None
    then have "items_loop sf (kv # rest) st = items_loop sf rest st"
      and "indicator_objects (kv # rest) = indicator_objects rest"
      by (cases test; simp add: kv st indicator_objects_Cons)+
    with Cons show ?thesis by simp
  next
    case (Some t)
    then have test: "test = JObj t" by (cases test) simp_all
    show ?thesis
    proof (cases "process_test sf key t")
      case (Inl e)
      then have "\<not> indicator_ok sf t" using process_test_ok [of sf key t] by simp
      with Inl show ?thesis by (simp add: kv st test indicator_objects_Cons)
    next
      case (Inr r)
      then have "indicator_ok sf t" using process_test_ok [of sf key t] by simp
      with Inr Cons.IH show ?thesis
        by (cases r) (simp add: kv st test indicator_objects_Cons)
    qed
  qed
qed


lemma process_dim_Inr:
  assumes "process_dim sf d pdim = Inr (processed, ps, ws)"
  shows "ps = weighted_sum sf d pdim" and "ws = weight_total sf d pdim"
    and "dict_get processed ''result'' JNull = result_entry (aggregate ps ws)"
proof -
  from assms obtain items p0 where it: "principle_items d pdim = JObj items"
    and loop: "items_loop sf items ([], 0, 0) = Inr (p0, ps, ws)"
    and pr: "processed = dict_set p0 ''result'' (result_entry (aggregate ps ws))"
    by (auto simp: process_dim_def split: json.splits sum.splits)
  from items_loop_sums [OF loop] it
  show "ps = weighted_sum sf d pdim" and "ws = weight_total sf d pdim"
    by (simp_all add: weighted_sum_def weight_total_def float_sum_def items_of_def)
  from pr show "dict_get processed ''result'' JNull = result_entry (aggregate ps ws)"
    by (simp add: dict_get_dict_set)
qed

lemma process_dim_ok:
  "\<not> isl (process_dim sf d pdim) \<longleftrightarrow>
     (\<exists>items. principle_items d pdim = JObj items \<and> (\<forall>t \<in> set (indicator_objects items). indicator_ok sf t))"
proof (cases "as_object (principle_items d pdim)")
  case None
  then show ?thesis by (cases "principle_items d pdim") (simp_all add: process_dim_def)
next
  case (Some items)
  then have it: "principle_items d pdim = JObj items" by (cases "principle_items d pdim") simp_all
  have "\<not> isl (process_dim sf d pdim) \<longleftrightarrow> \<not> isl (items_loop sf items ([], 0, 0))"
    by (cases "items_loop sf items ([], 0, 0)") (auto simp: process_dim_def it)
  with items_loop_ok [of sf items "([], 0, 0)"] it show ?thesis by simp
qed

lemma compute_scores_of_dims:
  assumes "process_dim sf d ''findable'' = Inr (pf, psf, wsf)"
    and "process_dim sf d ''accessible'' = Inr (pa, psa, wsa)"
    and "process_dim sf d ''interoperable'' = Inr (pn, psn, wsn)"
    and "process_dim sf d ''reusable'' = Inr (pu, psu, wsu)"
  shows "compute_scores sf (JObj d) =
     Inr (JObj [(''findable'', JObj pf), (''accessible'', JObj pa),
                (''interoperable'', JObj pn), (''reusable'', JObj pu)],
          aggregate (float_sum [psf, psa, psn, psu]) (float_sum [wsf, wsa, wsn, wsu]),
          colour_for (aggregate (float_sum [psf, psa, psn, psu]) (float_sum [wsf, wsa, wsn, wsu])))"
  using assms by (simp add: compute_scores_def dims_def float_sum_def Let_def)

lemma compute_scores_Inr:
  assumes "compute_scores sf (JObj d) = Inr (pr, fp, fc)"
  obtains pf pa pn pu where
    "process_dim sf d ''findable'' = Inr (pf, weighted_sum sf d ''findable'', weight_total sf d ''findable'')"
    "process_dim sf d ''accessible'' = Inr (pa, weighted_sum sf d ''accessible'', weight_total sf d ''accessible'')"
    "process_dim sf d ''interoperable'' = Inr (pn, weighted_sum sf d ''interoperable'', weight_total sf d ''interoperable'')"
    "process_dim sf d ''reusable'' = Inr (pu, weighted_sum sf d ''reusable'', weight_total sf d ''reusable'')"
    "pr = JObj [(''findable'', JObj pf), (''accessible'', JObj pa),
                (''interoperable'', JObj pn), (''reusable'', JObj pu)]"
    "fp = aggregate (global_points sf d) (global_weight sf d)"
    "fc = colour_for fp"
proof -
  from assms obtain pf psf wsf where f: "process_dim sf d ''findable'' = Inr (pf, psf, wsf)"
    by (cases "process_dim sf d ''findable''") (auto simp: compute_scores_def dims_def)
  from assms f obtain pa psa wsa where a: "process_dim sf d ''accessible'' = Inr (pa, psa, wsa)"
    by (cases "process_dim sf d ''accessible''") (auto simp: compute_scores_def dims_def)
  from assms f a obtain pn psn wsn where i: "process_dim sf d ''interoperable'' = Inr (pn, psn, wsn)"
    by (cases "process_dim sf d ''interoperable''") (auto simp: compute_scores_def dims_def)
  from assms f a i obtain pu psu wsu where u: "process_dim sf d ''reusable'' = Inr (pu, psu, wsu)"
    by (cases "process_dim sf d ''reusable''") (auto simp: compute_scores_def dims_def)
  note sums = process_dim_Inr(1,2) [OF f] process_dim_Inr(1,2) [OF a]
    process_dim_Inr(1,2) [OF i] process_dim_Inr(1,2) [OF u]
  from compute_scores_of_dims [OF f a i u] assms
  have "pr = JObj [(''findable'', JObj pf), (''accessible'', JObj pa),
                (''interoperable'', JObj pn), (''reusable'', JObj pu)]"
    and "fp = aggregate (float_sum [psf, psa, psn, psu]) (float_sum [wsf, wsa, wsn, wsu])"
    and "fc = colour_for fp"
    by simp_all
  with f a i u sums that show thesis
    by (simp add: global_points_def global_weight_def dims_def)
qed

lemma principle_result_dims:
  assumes "compute_scores sf (JObj d) = Inr (pr, fp, fc)" and "pdim \<in> set dims"
  shows "principle_result pr pdim =
    result_entry (aggregate (weighted_sum sf d pdim) (weight_total sf d pdim))"
proof -
  from assms(1) obtain pf pa pn pu where
    f: "process_dim sf d ''findable'' = Inr (pf, weighted_sum sf d ''findable'', weight_total sf d ''findable'')"
    and a: "process_dim sf d ''accessible'' = Inr (pa, weighted_sum sf d ''accessible'', weight_total sf d ''accessible'')"
    and i: "process_dim sf d ''interoperable'' = Inr (pn, weighted_sum sf d ''interoperable'', weight_total sf d ''interoperable'')"
    and u: "process_dim sf d ''reusable'' = Inr (pu, weighted_sum sf d ''reusable'', weight_total sf d ''reusable'')"
    and pr: "pr = JObj [(''findable'', JObj pf), (''accessible'', JObj pa),
                (''interoperable'', JObj pn), (''reusable'', JObj pu)]"
    by (rule compute_scores_Inr)
  from assms(2) consider "pdim = ''findable''" | "pdim = ''accessible''"
    | "pdim = ''interoperable''" | "pdim = ''reusable''"
    by (auto simp: dims_def)
  then show ?thesis
  proof cases
    case 1 with process_dim_Inr(3) [OF f] pr show ?thesis
      by (simp add: principle_result_def dict_get_def)
  next
    case 2 with process_dim_Inr(3) [OF a] pr show ?thesis
      by (simp add: principle_result_def dict_get_def)
  next
    case 3 with process_dim_Inr(3) [OF i] pr show ?thesis
      by (simp add: principle_result_def dict_get_def)
  next
    case 4 with process_dim_Inr(3) [OF u] pr show ?thesis
      by (simp add: principle_result_def dict_get_def)
  qed
qed

text \<open>When the function returns: exactly when, under each of the four names, the
  document holds a dict (or something falsy, or nothing) all of whose dict entries are
  processed without an exception.\<close>

lemma compute_scores_returns_iff:
  "\<not> isl (compute_scores sf (JObj d)) \<longleftrightarrow>
     (\<forall>pdim \<in> set dims. \<exists>items. principle_items d pdim = JObj items \<and>
        (\<forall>t \<in> set (indicator_objects items). indicator_ok sf t))"
proof
  assume "\<not> isl (compute_scores sf (JObj d))"
  then obtain pr fp fc where "compute_scores sf (JObj d) = Inr (pr, fp, fc)"
    by (cases "compute_scores sf (JObj d)") auto
  then obtain pf pa pn pu where
    "process_dim sf d ''findable'' = Inr (pf, weighted_sum sf d ''findable'', weight_total sf d ''findable'')"
    "process_dim sf d ''accessible'' = Inr (pa, weighted_sum sf d ''accessible'', weight_total sf d ''accessible'')"
    "process_dim sf d ''interoperable'' = Inr (pn, weighted_sum sf d ''interoperable'', weight_total sf d ''interoperable'')"
    "process_dim sf d ''reusable'' = Inr (pu, weighted_sum sf d ''reusable'', weight_total sf d ''reusable'')"
    by (rule compute_scores_Inr)
  then have "\<forall>pdim \<in> set dims. \<not> isl (process_dim sf d pdim)"
    by (simp add: dims_def)
  then show "\<forall>pdim \<in> set dims. \<exists>items. principle_items d pdim = JObj items \<and>
        (\<forall>t \<in> set (indicator_objects items). indicator_ok sf t)"
    by (simp only: process_dim_ok)
next
  assume "\<forall>pdim \<in> set dims. \<exists>items. principle_items d pdim = JObj items \<and>
        (\<forall>t \<in> set (indicator_objects items). indicator_ok sf t)"
  then have ok: "\<forall>pdim \<in> set dims. \<not> isl (process_dim sf d pdim)"
    by (simp only: process_dim_ok)
  then obtain rf ra rn ru where "process_dim sf d ''findable'' = Inr rf"
    "process_dim sf d ''accessible'' = Inr ra" "process_dim sf d ''interoperable'' = Inr rn"
    "process_dim sf d ''reusable'' = Inr ru"
    unfolding dims_def
    by (metis list.set_intros(1,2) sum.collapse(2))
  then show "\<not> isl (compute_scores sf (JObj d))"
    by (cases rf; cases ra; cases rn; cases ru) (simp add: compute_scores_of_dims)
qed

section \<open>The rounding is to the nearest double\<close>

text \<open>\<open>ilog2\<close> is the binary exponent: \<open>2\<^sup>e \<le> x < 2\<^sup>e\<^sup>+\<^sup>1\<close> for \<open>e = ilog2 x\<close>.\<close>

lemma pow2_powi: "pow2 e = 2 powi e"
  by (simp add: pow2_def power_int_def inverse_eq_divide power_one_over)

lemma bitlen_powi_bounds:
  assumes "0 < p"
  shows "2 powi (bitlen p - 1) \<le> (of_int p :: rat)" and "(of_int p :: rat) < 2 powi bitlen p"
proof -
  from assms have b1: "1 \<le> bitlen p" by (simp add: bitlen_alt_def)
  from bitlen_bounds [OF assms] have lo: "(2::int) ^ nat (bitlen p - 1) \<le> p"
    and hi: "p < 2 ^ nat (bitlen p)" by simp_all
  from lo have "(of_int ((2::int) ^ nat (bitlen p - 1)) :: rat) \<le> of_int p"
    by (simp only: of_int_le_iff)
  with b1 show "2 powi (bitlen p - 1) \<le> (of_int p :: rat)"
    by (simp add: power_int_def)
  from hi have "(of_int p :: rat) < of_int ((2::int) ^ nat (bitlen p))"
    by (simp only: of_int_less_iff)
  with b1 show "(of_int p :: rat) < 2 powi bitlen p"
    by (simp add: power_int_def)
qed

lemma ilog2_bounds:
  assumes "0 < x"
  shows "pow2 (ilog2 x) \<le> x" and "x < pow2 (ilog2 x + 1)"
proof -
  obtain p q where pq: "quotient_of x = (p, q)" by (cases "quotient_of x")
  then have q: "0 < q" by (rule quotient_of_denom_pos)
  from pq have x: "x = of_int p / of_int q" by (rule quotient_of_div)
  with assms q have p: "0 < p" by (simp add: zero_less_divide_iff)
  define e where "e = bitlen p - bitlen q"
  have qr: "(0::rat) < of_int q" using q by simp
  from bitlen_powi_bounds(2) [OF p] bitlen_powi_bounds(1) [OF q] qr
  have "x < 2 powi bitlen p / 2 powi (bitlen q - 1)"
    unfolding x by (intro frac_less) (simp_all add: p less_imp_le)
  also have "\<dots> = 2 powi (e + 1)"
    by (simp add: e_def power_int_diff power_int_add)
  finally have up: "x < pow2 (e + 1)" by (simp add: pow2_powi)
  from bitlen_powi_bounds(1) [OF p] bitlen_powi_bounds(2) [OF q] qr
  have "2 powi (bitlen p - 1) / 2 powi bitlen q < x"
    unfolding x by (intro frac_less2) simp_all
  then have lo: "pow2 (e - 1) < x"
    by (simp add: e_def pow2_powi power_int_diff power_int_add)
  have il: "ilog2 x = (if pow2 e \<le> x then e else e - 1)"
    by (simp add: ilog2_def pq e_def Let_def)
  from up lo il show "pow2 (ilog2 x) \<le> x" and "x < pow2 (ilog2 x + 1)"
    by (auto simp: not_le)
qed

lemma round_half_even_error: "\<bar>of_int (round_half_even y) - y\<bar> \<le> 1 / 2"
proof -
  have "of_int \<lfloor>y\<rfloor> \<le> y" and "y < of_int \<lfloor>y\<rfloor> + 1" by linarith+
  then show ?thesis
    by (auto simp: round_half_even_def Let_def abs_le_iff)
qed

lemma round_half_even_tie:
  "y - of_int \<lfloor>y\<rfloor> = 1 / 2 \<Longrightarrow> even (round_half_even y)"
  by (simp add: round_half_even_def Let_def)

text \<open>For \<open>x \<noteq> 0\<close> with binary exponent \<open>e\<close>, \<open>fl x\<close> is an integer multiple
  \<open>m * 2\<^sup>e\<^sup>-\<^sup>5\<^sup>2\<close> with \<open>\<bar>m\<bar> \<le> 2\<^sup>5\<^sup>3\<close>, at most half a unit in the last place away from
  \<open>x\<close>; on a tie the even \<open>m\<close> is taken (\<open>round_half_even_tie\<close>).\<close>

lemma fl_nearest:
  assumes "x \<noteq> 0"
  shows "\<exists>m. fl x = of_int m * pow2 (ilog2 \<bar>x\<bar> - 52) \<and> \<bar>m\<bar> \<le> 2 ^ 53 \<and>
           \<bar>fl x - x\<bar> \<le> pow2 (ilog2 \<bar>x\<bar> - 52) / 2"
proof -
  define s where "s = pow2 (ilog2 \<bar>x\<bar> - 52)"
  define m where "m = round_half_even (x / s)"
  have s: "0 < s" by (simp add: s_def pow2_powi)
  from assms have fl: "fl x = of_int m * s"
    by (simp add: fl_def Let_def s_def m_def)
  have err: "\<bar>of_int m - x / s\<bar> \<le> 1 / 2"
    unfolding m_def by (rule round_half_even_error)
  have "fl x - x = (of_int m - x / s) * s"
    using s by (simp add: fl field_simps)
  then have "\<bar>fl x - x\<bar> = \<bar>of_int m - x / s\<bar> * s"
    using s by (simp add: abs_mult)
  also have "\<dots> \<le> (1 / 2) * s"
    using err s by (intro mult_right_mono) simp_all
  finally have e: "\<bar>fl x - x\<bar> \<le> s / 2" by simp
  from assms have "\<bar>x\<bar> < pow2 (ilog2 \<bar>x\<bar> + 1)"
    by (intro ilog2_bounds) simp
  also have "pow2 (ilog2 \<bar>x\<bar> + 1) = s * 2 ^ 53"
  proof -
    have "(2::rat) powi (ilog2 \<bar>x\<bar> + 1) = 2 powi (ilog2 \<bar>x\<bar> - 52) * 2 powi 53"
      using power_int_add [of "2::rat" "ilog2 \<bar>x\<bar> - 52" 53] by (simp add: add.commute)
    moreover have "(2::rat) powi 53 = 2 ^ 53" by (simp add: power_int_def)
    ultimately have "(2::rat) powi (ilog2 \<bar>x\<bar> + 1) = 2 powi (ilog2 \<bar>x\<bar> - 52) * 2 ^ 53"
      by (simp only:)
    then show ?thesis by (simp only: s_def pow2_powi)
  qed
  finally have "\<bar>x / s\<bar> < 2 ^ 53"
    using s by (simp add: field_simps abs_mult)
  with err have "\<bar>(of_int m :: rat)\<bar> < 2 ^ 53 + 1"
    by linarith
  then have "(of_int \<bar>m\<bar> :: rat) < of_int (2 ^ 53 + 1)" by simp
  then have "\<bar>m\<bar> < 2 ^ 53 + 1" by (simp only: of_int_less_iff)
  then have "\<bar>m\<bar> \<le> 2 ^ 53" by simp
  with fl e show ?thesis unfolding s_def by blast
qed

section \<open>Rounding and the integers\<close>

text \<open>An integer below \<open>2\<^sup>5\<^sup>3\<close> in absolute value is a double: converting it, and
  rounding it to two decimals, returns it unchanged.\<close>

lemma round_half_even_of_int: "round_half_even (of_int m) = m"
  by (simp add: round_half_even_def)

lemma ilog2_of_int_le:
  assumes "0 < n" and "n < 2 ^ 53"
  shows "ilog2 (of_int n) \<le> 52"
proof -
  from bitlen_bounds [OF assms(1)] have "(2::int) ^ nat (bitlen n - 1) \<le> n" by simp
  from this assms(2) have "(2::int) ^ nat (bitlen n - 1) < 2 ^ 53" by (rule le_less_trans)
  then have "nat (bitlen n - 1) < 53"
    by (simp only: power_strict_increasing_iff one_less_numeral_iff semiring_norm)
  then have "bitlen n - 1 \<le> 52" by simp
  moreover have "bitlen 1 = 1" by (simp add: bitlen_alt_def)
  then have "ilog2 (of_int n) \<le> bitlen n - 1"
    by (simp add: ilog2_def Let_def)
  ultimately show ?thesis by simp
qed

lemma fl_of_int:
  assumes "\<bar>n\<bar> < 2 ^ 53"
  shows "fl (of_int n) = of_int n"
proof (cases "n = 0")
  case True
  then show ?thesis by (simp add: fl_def)
next
  case False
  then have pos: "0 < \<bar>n\<bar>" by simp
  define k where "k = nat (52 - ilog2 (of_int \<bar>n\<bar>))"
  from ilog2_of_int_le [OF pos assms] have le: "ilog2 (of_int \<bar>n\<bar>) - 52 \<le> 0" by simp
  then have s: "pow2 (ilog2 (of_int \<bar>n\<bar>) - 52) = 1 / 2 ^ k"
    by (auto simp: pow2_def k_def)
  have "(of_int n :: rat) / (1 / 2 ^ k) = of_int (n * 2 ^ k)" by simp
  then have "round_half_even (of_int n / (1 / 2 ^ k)) = n * 2 ^ k"
    by (simp only: round_half_even_of_int)
  with False s show ?thesis
    by (simp add: fl_def Let_def)
qed

lemma fl_numeral [simp]: "numeral k < (2::int) ^ 53 \<Longrightarrow> fl (numeral k) = numeral k"
  using fl_of_int [of "numeral k"] by simp

lemma fl_neg_numeral [simp]: "numeral k < (2::int) ^ 53 \<Longrightarrow> fl (- numeral k) = - numeral k"
  using fl_of_int [of "- numeral k"] by simp

lemma fl_0 [simp]: "fl 0 = 0"
  by (simp add: fl_def)

lemma fl_1 [simp]: "fl 1 = 1"
  using fl_of_int [of 1] by simp

lemma fl_neg_1 [simp]: "fl (- 1) = - 1"
  using fl_of_int [of "- 1"] by simp

lemma round2_of_int:
  assumes "\<bar>n\<bar> < 2 ^ 53"
  shows "round2 (of_int n) = of_int n"
proof -
  have "(of_int n :: rat) * 100 = of_int (n * 100)" by simp
  then have "round_half_even (of_int n * 100) = n * 100"
    by (simp only: round_half_even_of_int)
  with fl_of_int [OF assms] show ?thesis by (simp add: round2_def)
qed

lemma round2_numeral [simp]: "numeral k < (2::int) ^ 53 \<Longrightarrow> round2 (numeral k) = numeral k"
  using round2_of_int [of "numeral k"] by simp

lemma round2_neg_numeral [simp]:
  "numeral k < (2::int) ^ 53 \<Longrightarrow> round2 (- numeral k) = - numeral k"
  using round2_of_int [of "- numeral k"] by simp

lemma round2_0 [simp]: "round2 0 = 0"
  using round2_of_int [of 0] by simp

lemma round2_1 [simp]: "round2 1 = 1"
  using round2_of_int [of 1] by simp

subsection \<open>Evaluating the definitions on a document\<close>

lemmas cs_eval =
  compute_scores_def dims_def process_dim_def principle_items_def dict_get_def py_or_def
  process_test_def test_points_def test_weight_def format_msg_def indicator_def
  aggregate_def result_entry_def fadd_def fmul_def in_double_range_def Let_def

lemmas sums_eval =
  global_points_def global_weight_def weighted_sum_def weight_total_def float_sum_def
  products_def weights_def items_of_def indicator_objects_def points_of_def weight_of_def
  global_weighted_average_def mean_of_aggregates_def fdiv_def

lemma scores_of_Inr: "scores_of r = Inr (fp, fc) \<Longrightarrow> \<exists>pr. r = Inr (pr, fp, fc)"
  by (cases r) (auto simp: scores_of_def)




section \<open>Properties of compute_scores\<close>

subsection \<open>The overall score\<close>




subsection \<open>Principles without weight\<close>

text \<open>
  A principle whose accumulated weight is 0 has the aggregate \<open>0.0\<close>, coloured red, in
  the result of \<^verbatim>\<open>compute_scores\<close> whenever it returns: line 140 does not divide. And
  a principle whose indicator set is empty (the key is absent, or maps to \<^verbatim>\<open>None\<close> or
  to an empty dict) is processed without an exception, with both sums 0.
\<close>

lemma zero_weight_result:
  "(compute_scores sf (JObj d) = Inr (pr, fp, fc) \<and> pdim \<in> set dims \<and>
      weight_total sf d pdim = 0 \<longrightarrow>
      principle_result pr pdim = JObj [(''points'', JFloat 0), (''color'', JStr ''#E74C3C'')]) \<and>
   (principle_items d pdim = JObj [] \<longrightarrow>
      process_dim sf d pdim =
        Inr ([(''result'', JObj [(''points'', JFloat 0), (''color'', JStr ''#E74C3C'')])], 0, 0))"
proof (intro conjI impI)
  assume "compute_scores sf (JObj d) = Inr (pr, fp, fc) \<and> pdim \<in> set dims \<and>
      weight_total sf d pdim = 0"
  then show "principle_result pr pdim = JObj [(''points'', JFloat 0), (''color'', JStr ''#E74C3C'')]"
    using principle_result_dims [of sf d pr fp fc pdim]
    by (simp add: aggregate_def result_entry_def colour_for_def)
next
  assume "principle_items d pdim = JObj []"
  then show "process_dim sf d pdim =
        Inr ([(''result'', JObj [(''points'', JFloat 0), (''color'', JStr ''#E74C3C'')])], 0, 0)"
    by (simp add: process_dim_def aggregate_def result_entry_def colour_for_def)
qed

text \<open>On a document with an empty, an absent, a null and an all-zero-weight principle the
  function returns, and each of the four aggregates is \<open>0.0\<close>, red.\<close>

lemma zero_weight_result_example:
  "\<exists>pr. compute_scores no_numeric_strings (JObj zero_weight_doc) = Inr (pr, 0, ''#E74C3C'') \<and>
     list_all (\<lambda>pdim. weight_total no_numeric_strings zero_weight_doc pdim = 0 \<and>
        principle_result pr pdim = JObj [(''points'', JFloat 0), (''color'', JStr ''#E74C3C'')])
       [''findable'', ''accessible'', ''interoperable'', ''reusable'']"
proof -
  have "scores_of (compute_scores no_numeric_strings (JObj zero_weight_doc)) = Inr (0, ''#E74C3C'')"
    by (simp add: zero_weight_doc_def cs_eval scores_of_def colour_for_def)
  then obtain pr where
    cs: "compute_scores no_numeric_strings (JObj zero_weight_doc) = Inr (pr, 0, ''#E74C3C'')"
    using scores_of_Inr by blast
  have w: "weight_total no_numeric_strings zero_weight_doc ''findable'' = 0"
    "weight_total no_numeric_strings zero_weight_doc ''accessible'' = 0"
    "weight_total no_numeric_strings zero_weight_doc ''interoperable'' = 0"
    "weight_total no_numeric_strings zero_weight_doc ''reusable'' = 0"
    by (simp_all add: zero_weight_doc_def sums_eval cs_eval)
  note z = zero_weight_result [of no_numeric_strings zero_weight_doc pr 0 "''#E74C3C''"]
  from cs w z [of "''findable''"] z [of "''accessible''"] z [of "''interoperable''"]
    z [of "''reusable''"]
  show ?thesis by (simp add: dims_def)
qed

text \<open>
  C8. A principle of total weight 0 is not free of errors: at
  \<^verbatim>\<open>{"findable": {"i1": {"points": 80, "score": {"weight": 0}, "msg": ["not evaluated"]}}}\<close>
  the only indicator has weight 0, so the accumulated weight of \<^verbatim>\<open>findable\<close> is 0, and
  \<^verbatim>\<open>compute_scores\<close> raises \<^verbatim>\<open>AttributeError\<close> at line 123 instead of returning the
  aggregate \<open>0.0\<close>.
\<close>

theorem zero_weight_principle_raises:
  "weight_total sf zero_weight_msg_doc ''findable'' = 0 \<and>
   compute_scores sf (JObj zero_weight_msg_doc) = Inl AttributeError"
  by (simp add: zero_weight_msg_doc_def sums_eval cs_eval)

subsection \<open>The shape of the returned principles\<close>

lemma process_dim_is_object:
  "process_dim sf d pdim = Inr (processed, ps, ws) \<Longrightarrow>
   dict_get processed ''result'' JNull =
     JObj [(''points'', JFloat (aggregate ps ws)), (''color'', JStr (colour_for (aggregate ps ws)))]"
  using process_dim_Inr(3) [of sf d pdim processed ps ws] by (simp add: result_entry_def)

text \<open>
  C10. When \<^verbatim>\<open>compute_scores\<close> returns, the principles mapping has exactly the keys
  \<^verbatim>\<open>findable\<close>, \<^verbatim>\<open>accessible\<close>, \<^verbatim>\<open>interoperable\<close> and \<^verbatim>\<open>reusable\<close>, in
  this order, and under each of them the entry \<^verbatim>\<open>result\<close> holds exactly the points
  and the colour of the principle's aggregate, computed from the sums over all indicators
  of the principle. So an indicator stored under the key \<^verbatim>\<open>result\<close> is replaced by the
  aggregate, and its points and weight count in the sums.
\<close>

theorem principles_keys_and_results:
  assumes "compute_scores sf (JObj d) = Inr (pr, fp, fc)"
  shows "\<exists>ps. pr = JObj ps \<and>
     map fst ps = [''findable'', ''accessible'', ''interoperable'', ''reusable''] \<and>
     (\<forall>pdim \<in> set dims. \<exists>processed rp.
        dict_get ps pdim JNull = JObj processed \<and>
        rp = aggregate (weighted_sum sf d pdim) (weight_total sf d pdim) \<and>
        dict_get processed ''result'' JNull =
          JObj [(''points'', JFloat rp), (''color'', JStr (colour_for rp))])"
proof -
  from assms obtain pf pa pn pu where
    f: "process_dim sf d ''findable'' = Inr (pf, weighted_sum sf d ''findable'', weight_total sf d ''findable'')"
    and a: "process_dim sf d ''accessible'' = Inr (pa, weighted_sum sf d ''accessible'', weight_total sf d ''accessible'')"
    and i: "process_dim sf d ''interoperable'' = Inr (pn, weighted_sum sf d ''interoperable'', weight_total sf d ''interoperable'')"
    and u: "process_dim sf d ''reusable'' = Inr (pu, weighted_sum sf d ''reusable'', weight_total sf d ''reusable'')"
    and pr: "pr = JObj [(''findable'', JObj pf), (''accessible'', JObj pa),
                (''interoperable'', JObj pn), (''reusable'', JObj pu)]"
    by (rule compute_scores_Inr)
  from process_dim_is_object [OF f] process_dim_is_object [OF a]
    process_dim_is_object [OF i] process_dim_is_object [OF u] pr
  show ?thesis by (simp add: dims_def dict_get_def)
qed

theorem principles_keys_and_results_witness:
  "(\<exists>ps. compute_scores no_numeric_strings (JObj result_key_doc) = Inr (JObj ps, 100, ''#2ECC71'') \<and>
      map fst ps = [''findable'', ''accessible'', ''interoperable'', ''reusable''] \<and>
      dict_get ps ''findable'' JNull =
        JObj [(''result'', JObj [(''points'', JFloat 100), (''color'', JStr ''#2ECC71'')])] \<and>
      dict_get ps ''accessible'' JNull =
        JObj [(''result'', JObj [(''points'', JFloat 0), (''color'', JStr ''#E74C3C'')])] \<and>
      dict_get ps ''reusable'' JNull =
        JObj [(''result'', JObj [(''points'', JFloat 0), (''color'', JStr ''#E74C3C'')])]) \<and>
   weighted_sum no_numeric_strings result_key_doc ''findable'' = 100 \<and>
   weight_total no_numeric_strings result_key_doc ''findable'' = 1"
proof -
  have cs: "compute_scores no_numeric_strings (JObj result_key_doc) =
     Inr (JObj
       [(''findable'', JObj [(''result'', JObj [(''points'', JFloat 100), (''color'', JStr ''#2ECC71'')])]),
        (''accessible'', JObj [(''result'', JObj [(''points'', JFloat 0), (''color'', JStr ''#E74C3C'')])]),
        (''interoperable'', JObj [(''result'', JObj [(''points'', JFloat 0), (''color'', JStr ''#E74C3C'')])]),
        (''reusable'', JObj [(''result'', JObj [(''points'', JFloat 0), (''color'', JStr ''#E74C3C'')])])],
       100, ''#2ECC71'')"
    by (simp add: result_key_doc_def cs_eval fdiv_def colour_for_def)
  have s: "weighted_sum no_numeric_strings result_key_doc ''findable'' = 100"
    "weight_total no_numeric_strings result_key_doc ''findable'' = 1"
    by (simp_all add: result_key_doc_def sums_eval cs_eval)
  from principles_keys_and_results [OF cs] cs s show ?thesis
    by (simp add: dict_get_def)
qed

subsection \<open>Malformed indicators\<close>

text \<open>
  C2. The function is not total on mappings of mappings: a \<^verbatim>\<open>msg\<close> that is a list of
  plain strings raises \<^verbatim>\<open>AttributeError\<close> (line 123 calls \<^verbatim>\<open>m.get\<close> on a string),
  \<^verbatim>\<open>points\<close> given as a non-empty list raise \<^verbatim>\<open>TypeError\<close> (line 115), and a
  \<^verbatim>\<open>score\<close> that is \<^verbatim>\<open>null\<close> raises \<^verbatim>\<open>AttributeError\<close> (line 116).
\<close>

theorem compute_scores_raises:
  "compute_scores sf (JObj [(''findable'', JObj [(''i1'', JObj [(''msg'', JArr [JStr ''A''])])])])
     = Inl AttributeError \<and>
   compute_scores sf (JObj [(''findable'', JObj [(''i1'', JObj [(''points'', JArr [JInt 1])])])])
     = Inl TypeError \<and>
   compute_scores sf (JObj [(''findable'', JObj [(''i1'', JObj [(''score'', JNull)])])])
     = Inl AttributeError"
  by (simp add: cs_eval)

subsection \<open>Messages\<close>

lemma comprehension_objects:
  "comprehension msg_item (map JObj ms) = Inr (map (\<lambda>m. dict_get m ''message'' (JStr '''')) ms)"
  by (induction ms) simp_all

text \<open>
  C3, as amended. A \<^verbatim>\<open>msg\<close> that is a list of objects becomes the list of their
  \<^verbatim>\<open>message\<close> values, the empty string where an object has none; a \<^verbatim>\<open>msg\<close> that is
  not a list is kept as it is when truthy and becomes the empty list otherwise (absent,
  \<^verbatim>\<open>null\<close>, empty); and this value is the \<^verbatim>\<open>msg\<close> field of the processed entry.
\<close>

theorem msg_normalization:
  "format_msg (JArr (map JObj ms)) = Inr (JArr (map (\<lambda>m. dict_get m ''message'' (JStr '''')) ms)) \<and>
   ((\<forall>xs. messages \<noteq> JArr xs) \<longrightarrow>
      format_msg messages = Inr (if truthy messages then messages else JArr [])) \<and>
   (process_test sf key test = Inr (entry, p, w) \<longrightarrow>
      (\<exists>fields. entry = JObj fields \<and>
         Inr (dict_get fields ''msg'' JNull) = format_msg (dict_get test ''msg'' JNull)))"
proof (intro conjI impI)
  show "format_msg (JArr (map JObj ms)) = Inr (JArr (map (\<lambda>m. dict_get m ''message'' (JStr '''')) ms))"
    by (simp add: format_msg_def comprehension_objects)
next
  assume "\<forall>xs. messages \<noteq> JArr xs"
  then show "format_msg messages = Inr (if truthy messages then messages else JArr [])"
    by (cases messages) (simp_all add: format_msg_def py_or_def)
next
  assume "process_test sf key test = Inr (entry, p, w)"
  then show "\<exists>fields. entry = JObj fields \<and>
         Inr (dict_get fields ''msg'' JNull) = format_msg (dict_get test ''msg'' JNull)"
    by (auto simp: process_test_def Let_def dict_get_def split: sum.splits)
qed

theorem msg_normalization_witness:
  "format_msg (JArr [JObj [(''message'', JStr ''A'')], JObj [(''message'', JStr ''B'')]])
     = Inr (JArr [JStr ''A'', JStr ''B'']) \<and>
   format_msg (JStr ''A'') = Inr (JStr ''A'') \<and>
   format_msg JNull = Inr (JArr []) \<and>
   (\<exists>fields p w.
      process_test no_numeric_strings ''i1''
        [(''msg'', JArr [JObj [(''message'', JStr ''A'')], JObj [(''message'', JStr ''B'')]])]
        = Inr (JObj fields, p, w) \<and>
      dict_get fields ''msg'' JNull = JArr [JStr ''A'', JStr ''B''])"
proof -
  note n = msg_normalization [of "[[(''message'', JStr ''A'')], [(''message'', JStr ''B'')]]"]
  have a: "format_msg (JArr [JObj [(''message'', JStr ''A'')], JObj [(''message'', JStr ''B'')]])
     = Inr (JArr [JStr ''A'', JStr ''B''])"
    using n [of JNull no_numeric_strings "[]" "[]" JNull 0 0] by (simp add: dict_get_def)
  have b: "format_msg (JStr ''A'') = Inr (JStr ''A'')"
    using n [of "JStr ''A''" no_numeric_strings "[]" "[]" JNull 0 0] by simp
  have c: "format_msg JNull = Inr (JArr [])"
    using n [of JNull no_numeric_strings "[]" "[]" JNull 0 0] by simp
  have "\<not> isl (process_test no_numeric_strings ''i1''
        [(''msg'', JArr [JObj [(''message'', JStr ''A'')], JObj [(''message'', JStr ''B'')]])])"
    by (simp add: cs_eval)
  then obtain entry p w where pt: "process_test no_numeric_strings ''i1''
        [(''msg'', JArr [JObj [(''message'', JStr ''A'')], JObj [(''message'', JStr ''B'')]])]
        = Inr (entry, p, w)"
    by (cases "process_test no_numeric_strings ''i1''
        [(''msg'', JArr [JObj [(''message'', JStr ''A'')], JObj [(''message'', JStr ''B'')]])]") auto
  from n [of JNull no_numeric_strings "''i1''"
      "[(''msg'', JArr [JObj [(''message'', JStr ''A'')], JObj [(''message'', JStr ''B'')]])]" entry p w] pt a
  obtain fields where "entry = JObj fields" and "dict_get fields ''msg'' JNull = JArr [JStr ''A'', JStr ''B'']"
    by (auto simp: dict_get_def)
  with pt a b c show ?thesis by auto
qed

text \<open>The claim as stated fails at \<^verbatim>\<open>msg = "A"\<close>: the processed entry holds the string
  \<^verbatim>\<open>"A"\<close>, not the list \<^verbatim>\<open>["A"]\<close>. Nor is a \<^verbatim>\<open>msg\<close> that is an object turned into
  a list of strings.\<close>

theorem msg_normalization_counterexample:
  "process_test no_numeric_strings ''i1'' [(''msg'', JStr ''A'')] =
     Inr (JObj
       [(''name'', JStr ''i1''), (''name_smart'', JStr ''i1''), (''points'', JFloat 0),
        (''score'', JObj [(''weight'', JFloat 0)]), (''color'', JStr ''#E74C3C''),
        (''test_status'', JStr ''''), (''msg'', JStr ''A'')], 0, 0) \<and>
   JStr ''A'' \<noteq> JArr [JStr ''A''] \<and>
   format_msg (JObj [(''text'', JStr ''A'')]) = Inr (JObj [(''text'', JStr ''A'')])"
  by (simp add: cs_eval colour_for_def)

subsection \<open>The order of the indicators\<close>









section \<open>Properties of the evaluation handler\<close>

subsection \<open>The development-mode loader\<close>

lemma first_data_find:
  "first_data kvs = map_option snd (find (\<lambda>kv. fst kv \<noteq> ''evaluator_logs'') kvs)"
  by (induction kvs) auto

text \<open>
  C6. When the sample file parses to a JSON object, the development-mode loader reads
  that file and returns, as the evaluation document, the value of the first top-level key
  in document order that is not \<^verbatim>\<open>evaluator_logs\<close>.
\<close>

theorem dev_loader_first_group:
  "read_json w (sample_file cfg) = Some (JObj json_data) \<Longrightarrow>
   load_document w (cfg\<lparr>dev_mode := True\<rparr>) item_id =
     ([FileRead (sample_file cfg)],
      ResultData (map_option snd (find (\<lambda>kv. fst kv \<noteq> ''evaluator_logs'') json_data)))"
  by (simp add: load_document_def document_data_def first_data_find)

text \<open>The fixture with the keys \<^verbatim>\<open>evaluator_logs\<close> and \<^verbatim>\<open>group1\<close>: the loader
  returns the value under \<^verbatim>\<open>group1\<close>.\<close>

theorem dev_loader_first_group_witness:
  "load_document failing_api_world (production_cfg\<lparr>dev_mode := True\<rparr>) ''10.1234/abc'' =
     ([FileRead ''data/salida_new.json''],
      ResultData (Some (JObj [(''findable'', JObj [(''f1'', indicator 80 1)])])))"
proof -
  have r: "read_json failing_api_world (sample_file (production_cfg\<lparr>dev_mode := True\<rparr>)) =
      Some (JObj [(''evaluator_logs'', JStr ''log''),
           (''group1'', JObj [(''findable'', JObj [(''f1'', indicator 80 1)])])])"
    by (simp add: failing_api_world_def production_cfg_def fixture_def)
  from dev_loader_first_group [OF r, of "''10.1234/abc''"]
  show ?thesis
    by (simp add: production_cfg_def)
qed

subsection \<open>The mode flag\<close>

text \<open>
  C4. With the development-mode flag off, the handler does what it does with the flag
  on: line 257 sets the flag before the loader runs, so the only action is the read of the
  sample file, and no HTTP request is made.
\<close>

theorem evaluator_forces_dev_mode:
  "dev_mode production_cfg = False \<and>
   evaluator sf w production_cfg ''10.1234/abc'' =
     evaluator sf w (production_cfg\<lparr>dev_mode := True\<rparr>) ''10.1234/abc'' \<and>
   fst (evaluator sf w production_cfg ''10.1234/abc'') = [FileRead ''data/salida_new.json'']"
  by (simp add: evaluator_def load_document_def production_cfg_def split: prod.splits)

text \<open>The \<^verbatim>\<open>else\<close> branch of the loader, which the handler never reaches: one POST to
  the endpoint with the identifier and the language, and a failed load on a status from
  400 to 599.\<close>

lemma production_branch:
  "load_document w (cfg\<lparr>dev_mode := False, api_url := ''http://localhost'', api_port := 9090\<rparr>) item_id =
     ([HttpPost ''http://localhost:9090/v1.0/rda/rda_all''
         (JObj [(''id'', JStr item_id), (''lang'', JStr ''en'')])],
      (case http_post w ''http://localhost:9090/v1.0/rda/rda_all''
         (JObj [(''id'', JStr item_id), (''lang'', JStr ''en'')]) of
         NoReply \<Rightarrow> LoadFailed
       | Reply status body \<Rightarrow>
           if 400 \<le> status \<and> status < 600 then LoadFailed else document_data body))"
  by (simp add: load_document_def rstrip_slash_def str_int_def Let_def)

text \<open>
  C5. With the development-mode flag off and an API that answers 500, the handler makes
  no POST and shows no error page: it reads the sample file and returns the scores of the
  fixture.
\<close>

theorem evaluator_never_posts:
  "evaluator no_numeric_strings failing_api_world production_cfg ''10.1234/abc'' =
     ([FileRead ''data/salida_new.json''],
      Scored
        (JObj
          [(''findable'', JObj
             [(''f1'', JObj
                [(''name'', JStr ''f1''), (''name_smart'', JStr ''f1''), (''points'', JFloat 80),
                 (''score'', JObj [(''weight'', JFloat 1)]), (''color'', JStr ''#2ECC71''),
                 (''test_status'', JStr ''''), (''msg'', JArr [])]),
              (''result'', JObj [(''points'', JFloat 80), (''color'', JStr ''#2ECC71'')])]),
           (''accessible'', JObj [(''result'', JObj [(''points'', JFloat 0), (''color'', JStr ''#E74C3C'')])]),
           (''interoperable'', JObj [(''result'', JObj [(''points'', JFloat 0), (''color'', JStr ''#E74C3C'')])]),
           (''reusable'', JObj [(''result'', JObj [(''points'', JFloat 0), (''color'', JStr ''#E74C3C'')])])])
        80 ''#2ECC71'')"
  by (simp add: evaluator_def load_document_def document_data_def production_cfg_def
    failing_api_world_def fixture_def cs_eval fdiv_def colour_for_def)

end
